theory Spec2Isabelle
  imports Main
begin

section \<open>JavaScript values, objects and the object store\<close>

text \<open>
  The facade passes values of the transport through without computing on them, and two of
  its decisions depend on what kind of value it holds: \<^verbatim>\<open>if (x)\<close> and \<^verbatim>\<open>x || y\<close>
  test truthiness, \<^verbatim>\<open>x ?? y\<close> and \<^verbatim>\<open>x?.k\<close> test for \<^verbatim>\<open>undefined\<close> and \<^verbatim>\<open>null\<close>.
  Values are therefore the primitive values of the language and references to objects.
  Numbers are the integers (status codes) and \<^verbatim>\<open>NaN\<close>; fractional numbers do not occur.
  An object is a finite map from property names to values; objects live in a store and
  are addressed by their position in it, so that two references are the same object
  exactly when the addresses are equal.
\<close>

type_synonym addr = nat

datatype jsval =
    JUndefined
  | JNull
  | JBool bool
  | JNum int
  | JNaN
  | JStr string
  | JRef addr

type_synonym jsobj = "string \<rightharpoonup> jsval"

type_synonym heap = "jsobj list"

definition heap_obj :: "heap \<Rightarrow> addr \<Rightarrow> jsobj" where
  "heap_obj h a = (if a < length h then h ! a else Map.empty)"

text \<open>An object literal allocates a new object behind every object of the store.\<close>

definition alloc :: "jsobj \<Rightarrow> heap \<Rightarrow> jsval \<times> heap" where
  "alloc obj h = (JRef (length h), h @ [obj])"

text \<open>The falsy values are \<^verbatim>\<open>undefined\<close>, \<^verbatim>\<open>null\<close>, \<^verbatim>\<open>false\<close>, \<^verbatim>\<open>0\<close>, \<^verbatim>\<open>NaN\<close> and \<^verbatim>\<open>''\<close>.\<close>

fun truthy :: "jsval \<Rightarrow> bool" where
  "truthy JUndefined = False"
| "truthy JNull = False"
| "truthy (JBool b) = b"
| "truthy (JNum n) = (n \<noteq> 0)"
| "truthy JNaN = False"
| "truthy (JStr s) = (s \<noteq> [])"
| "truthy (JRef a) = True"

fun nullish :: "jsval \<Rightarrow> bool" where
  "nullish JUndefined = True"
| "nullish JNull = True"
| "nullish v = False"

text \<open>The only exception the facade's own code can raise: reading a property of
  \<^verbatim>\<open>undefined\<close> or \<^verbatim>\<open>null\<close>.\<close>

datatype exn = TypeError

text \<open>
  Member access \<^verbatim>\<open>v.k\<close>; a property the object does not have reads as
  \<^verbatim>\<open>undefined\<close>. The names read by the facade (\<^verbatim>\<open>status\<close>, \<^verbatim>\<open>response\<close>,
  \<^verbatim>\<open>headers\<close>, \<^verbatim>\<open>data\<close>) are no properties of booleans, numbers or strings, so on
  those the access yields \<^verbatim>\<open>undefined\<close>. Properties are plain data (no getters).
\<close>

definition obj_prop :: "heap \<Rightarrow> addr \<Rightarrow> string \<Rightarrow> jsval" where
  "obj_prop h a k = (case heap_obj h a k of None \<Rightarrow> JUndefined | Some v \<Rightarrow> v)"

fun get_prop :: "heap \<Rightarrow> jsval \<Rightarrow> string \<Rightarrow> exn + jsval" where
  "get_prop h JUndefined k = Inl TypeError"
| "get_prop h JNull k = Inl TypeError"
| "get_prop h (JRef a) k = Inr (obj_prop h a k)"
| "get_prop h v k = Inr JUndefined"

text \<open>Optional chaining \<^verbatim>\<open>v?.k\<close>.\<close>

definition opt_chain :: "heap \<Rightarrow> jsval \<Rightarrow> string \<Rightarrow> exn + jsval" where
  "opt_chain h v k = (if nullish v then Inr JUndefined else get_prop h v k)"

text \<open>Nullish coalescing \<^verbatim>\<open>v ?? d\<close>.\<close>

definition nullish_coalesce :: "jsval \<Rightarrow> jsval \<Rightarrow> jsval" where
  "nullish_coalesce v d = (if nullish v then d else v)"

text \<open>\<^verbatim>\<open>v || {}\<close>: the empty object is allocated only when \<^verbatim>\<open>v\<close> is falsy.\<close>

definition or_empty_object :: "jsval \<Rightarrow> heap \<Rightarrow> jsval \<times> heap" where
  "or_empty_object v h = (if truthy v then (v, h) else alloc Map.empty h)"

text \<open>Reading an optional field of an object literal: an absent key reads as \<^verbatim>\<open>undefined\<close>.\<close>

definition opt_field :: "jsval option \<Rightarrow> jsval" where
  "opt_field f = (case f of None \<Rightarrow> JUndefined | Some v \<Rightarrow> v)"

section \<open>Promises\<close>

text \<open>
  A promise is observed by awaiting it: it has resolved with a value, rejected with a
  reason, or it never settles. An \<^verbatim>\<open>async\<close> function returns such a promise: a
  \<^verbatim>\<open>return\<close> resolves it, an exception that leaves the body rejects it, and an
  \<^verbatim>\<open>await\<close> on a promise that never settles leaves it pending.
\<close>

datatype ('a, 'e) promise = Resolved 'a | Rejected 'e | Pending

definition async_return :: "(exn + 'a) \<times> heap \<Rightarrow> ('a, exn) promise \<times> heap" where
  "async_return r = (case fst r of Inl x \<Rightarrow> Rejected x | Inr v \<Rightarrow> Resolved v, snd r)"

section \<open>The result wrapper (try-catch.ts)\<close>

text \<open>
  A \<^verbatim>\<open>Result\<close> is an object with the key \<^verbatim>\<open>result\<close> or the key \<^verbatim>\<open>error\<close>; a
  field is \<open>None\<close> when the key is absent. The value under a present key may itself be
  \<^verbatim>\<open>undefined\<close>.
\<close>

record Result =
  result :: "jsval option"
  error :: "jsval option"

definition tryCatch :: "(jsval, jsval) promise \<Rightarrow> (Result, exn) promise" where
  "tryCatch p =
     (case p of
        Resolved data \<Rightarrow> Resolved \<lparr>result = Some data, error = None\<rparr>
      | Rejected err \<Rightarrow> Resolved \<lparr>result = None, error = Some err\<rparr>
      | Pending \<Rightarrow> Pending)"

section \<open>The HTTP facade (http-client.ts)\<close>

datatype HttpMethod = GET | POST | PUT | PATCH | DELETE

record HttpRequest =
  req_method :: HttpMethod
  req_url :: string
  req_headers :: "jsval option"
  req_params :: "jsval option"
  req_body :: "jsval option"

record HttpResponse =
  res_status :: jsval
  res_headers :: jsval
  res_data :: "jsval option"
  res_error :: "jsval option"

text \<open>The argument of the transport's \<^verbatim>\<open>request\<close>: all five keys are always present.\<close>

record AxiosRequestConfig =
  cfg_method :: HttpMethod
  cfg_url :: string
  cfg_headers :: jsval
  cfg_params :: jsval
  cfg_data :: jsval

text \<open>
  The transport is the external collaborator. Its \<^verbatim>\<open>request\<close> is an asynchronous
  method: called with a configuration in a store, it gives a promise and the store as it
  is when the promise has settled (the response or error object is allocated by then).
\<close>

type_synonym AxiosInstance = "AxiosRequestConfig \<Rightarrow> heap \<Rightarrow> (jsval, jsval) promise \<times> heap"

record HttpClient =
  axiosInstance :: AxiosInstance

text \<open>
  The constructor: the object literal \<^verbatim>\<open>{ baseURL, ...options }\<close> is handed to the
  transport's factory \<^verbatim>\<open>axios.create\<close>, a parameter here. Spreading copies the entries of
  \<^verbatim>\<open>options\<close> over what the literal holds so far; spreading \<^verbatim>\<open>undefined\<close> copies nothing.
\<close>

definition create_config :: "string \<Rightarrow> jsobj option \<Rightarrow> jsobj" where
  "create_config baseURL options =
     [''baseURL'' \<mapsto> JStr baseURL] ++ (case options of None \<Rightarrow> Map.empty | Some opts \<Rightarrow> opts)"

definition constructor :: "(jsobj \<Rightarrow> AxiosInstance) \<Rightarrow> string \<Rightarrow> jsobj option \<Rightarrow> HttpClient" where
  "constructor axios_create baseURL options =
     \<lparr>axiosInstance = axios_create (create_config baseURL options)\<rparr>"

text \<open>
  \<^verbatim>\<open>const { method, url, headers, params, body: data } = config\<close> and the literal
  \<^verbatim>\<open>{ method, url, headers, params, data }\<close> passed to the transport.
\<close>

definition axios_config :: "HttpRequest \<Rightarrow> AxiosRequestConfig" where
  "axios_config config =
     \<lparr>cfg_method = req_method config,
      cfg_url = req_url config,
      cfg_headers = opt_field (req_headers config),
      cfg_params = opt_field (req_params config),
      cfg_data = opt_field (req_body config)\<rparr>"

text \<open>The object returned under \<^verbatim>\<open>if (axiosResponse.error)\<close>; its fields are evaluated
  in the order written.\<close>

definition failure_response :: "Result \<Rightarrow> heap \<Rightarrow> (exn + HttpResponse) \<times> heap" where
  "failure_response axiosResponse h =
     (case get_prop h (opt_field (error axiosResponse)) ''status'' of
        Inl x \<Rightarrow> (Inl x, h)
      | Inr st \<Rightarrow>
         (case get_prop h (opt_field (error axiosResponse)) ''response'' of
            Inl x \<Rightarrow> (Inl x, h)
          | Inr resp \<Rightarrow>
             (case opt_chain h resp ''headers'' of
                Inl x \<Rightarrow> (Inl x, h)
              | Inr hdrs \<Rightarrow>
                 (case or_empty_object hdrs h of
                    (hv, h') \<Rightarrow>
                      (Inr \<lparr>res_status = nullish_coalesce st (JNum 500),
                            res_headers = hv,
                            res_data = None,
                            res_error = Some (opt_field (error axiosResponse))\<rparr>, h')))))"

text \<open>The object returned otherwise.\<close>

definition success_response :: "Result \<Rightarrow> heap \<Rightarrow> (exn + HttpResponse) \<times> heap" where
  "success_response axiosResponse h =
     (case get_prop h (opt_field (result axiosResponse)) ''status'' of
        Inl x \<Rightarrow> (Inl x, h)
      | Inr st \<Rightarrow>
         (case get_prop h (opt_field (result axiosResponse)) ''headers'' of
            Inl x \<Rightarrow> (Inl x, h)
          | Inr hdrs \<Rightarrow>
             (case get_prop h (opt_field (result axiosResponse)) ''data'' of
                Inl x \<Rightarrow> (Inl x, h)
              | Inr d \<Rightarrow>
                 (Inr \<lparr>res_status = st,
                       res_headers = hdrs,
                       res_data = Some d,
                       res_error = None\<rparr>, h))))"

definition request :: "HttpClient \<Rightarrow> HttpRequest \<Rightarrow> heap \<Rightarrow> (HttpResponse, exn) promise \<times> heap" where
  "request this config h =
     (case axiosInstance this (axios_config config) h of
        (p, h1) \<Rightarrow>
          (case tryCatch p of
             Pending \<Rightarrow> (Pending, h1)
           | Rejected x \<Rightarrow> (Rejected x, h1)
           | Resolved axiosResponse \<Rightarrow>
               if truthy (opt_field (error axiosResponse))
               then async_return (failure_response axiosResponse h1)
               else async_return (success_response axiosResponse h1)))"

text \<open>The verb methods. An optional argument the caller leaves out is \<^verbatim>\<open>undefined\<close>; a
  key the literal does not mention is absent.\<close>

definition get :: "HttpClient \<Rightarrow> string \<Rightarrow> jsval \<Rightarrow> jsval \<Rightarrow> heap \<Rightarrow> (HttpResponse, exn) promise \<times> heap" where
  "get this url params headers =
     request this \<lparr>req_method = GET, req_url = url, req_headers = Some headers,
                   req_params = Some params, req_body = None\<rparr>"

definition post :: "HttpClient \<Rightarrow> string \<Rightarrow> jsval \<Rightarrow> jsval \<Rightarrow> heap \<Rightarrow> (HttpResponse, exn) promise \<times> heap" where
  "post this url body headers =
     request this \<lparr>req_method = POST, req_url = url, req_headers = Some headers,
                   req_params = None, req_body = Some body\<rparr>"

definition put :: "HttpClient \<Rightarrow> string \<Rightarrow> jsval \<Rightarrow> jsval \<Rightarrow> heap \<Rightarrow> (HttpResponse, exn) promise \<times> heap" where
  "put this url body headers =
     request this \<lparr>req_method = PUT, req_url = url, req_headers = Some headers,
                   req_params = None, req_body = Some body\<rparr>"

definition patch :: "HttpClient \<Rightarrow> string \<Rightarrow> jsval \<Rightarrow> jsval \<Rightarrow> heap \<Rightarrow> (HttpResponse, exn) promise \<times> heap" where
  "patch this url body headers =
     request this \<lparr>req_method = PATCH, req_url = url, req_headers = Some headers,
                   req_params = None, req_body = Some body\<rparr>"

definition delete :: "HttpClient \<Rightarrow> string \<Rightarrow> jsval \<Rightarrow> heap \<Rightarrow> (HttpResponse, exn) promise \<times> heap" where
  "delete this url headers =
     request this \<lparr>req_method = DELETE, req_url = url, req_headers = Some headers,
                   req_params = None, req_body = None\<rparr>"

section \<open>What the specification says, and test doubles\<close>

text \<open>
  The status the specification promises for a failure object at address \<open>a\<close>: its own
  status code if present, else the status of the nested response if there is one, else
  500.
\<close>

definition spec_failure_status :: "heap \<Rightarrow> addr \<Rightarrow> jsval" where
  "spec_failure_status h a =
     (if \<not> nullish (obj_prop h a ''status'') then obj_prop h a ''status''
      else (case obj_prop h a ''response'' of
              JRef b \<Rightarrow> obj_prop h b ''status''
            | _ \<Rightarrow> JNum 500))"

text \<open>The outcomes of the transport on which the facade builds a response: a resolution
  with anything but \<^verbatim>\<open>undefined\<close> and \<^verbatim>\<open>null\<close>, or a rejection with a truthy value.\<close>

definition well_settled :: "(jsval, jsval) promise \<times> heap \<Rightarrow> bool" where
  "well_settled s =
     (case fst s of Resolved v \<Rightarrow> \<not> nullish v | Rejected e \<Rightarrow> truthy e | Pending \<Rightarrow> False)"

definition resolves :: "('a, 'e) promise \<times> heap \<Rightarrow> bool" where
  "resolves s = (case fst s of Resolved r \<Rightarrow> True | Rejected x \<Rightarrow> False | Pending \<Rightarrow> False)"

text \<open>The transports of the unit tests: \<^verbatim>\<open>mockRejectedValue\<close> and \<^verbatim>\<open>mockResolvedValue\<close>
  settle every request the same way and leave the store alone.\<close>

definition mockRejectedValue :: "jsval \<Rightarrow> AxiosInstance" where
  "mockRejectedValue e cfg h = (Rejected e, h)"

definition mockResolvedValue :: "jsval \<Rightarrow> AxiosInstance" where
  "mockResolvedValue v cfg h = (Resolved v, h)"

text \<open>
  The store of the unit test \<^verbatim>\<open>should handle axios error with undefined status\<close>: the
  error object at 0 has no status of its own; its nested response at 1 has status 0 and
  the headers object at 3.
\<close>

definition heap_undefined_status :: heap where
  "heap_undefined_status =
     [ [''message'' \<mapsto> JStr ''Unknown Error'', ''code'' \<mapsto> JStr ''UNKNOWN_ERROR'',
       ''response'' \<mapsto> JRef 1],
      [''status'' \<mapsto> JNum 0, ''statusText'' \<mapsto> JStr ''Unknown'', ''data'' \<mapsto> JRef 2,
       ''headers'' \<mapsto> JRef 3],
      [''error'' \<mapsto> JStr ''Unknown error''],
      [''content-type'' \<mapsto> JStr ''application/json''] ]"

text \<open>A failure object (at 0) without a status of its own whose nested response (at 1)
  reports 404.\<close>

definition heap_nested_404 :: heap where
  "heap_nested_404 =
     [ [''message'' \<mapsto> JStr ''Request failed with status code 404'', ''response'' \<mapsto> JRef 1],
      [''status'' \<mapsto> JNum 404, ''headers'' \<mapsto> JRef 2],
      [''content-type'' \<mapsto> JStr ''application/json''] ]"

text \<open>A failure object with status and nested response, as the transport builds it for a
  403 answer.\<close>

definition heap_forbidden :: heap where
  "heap_forbidden =
     [ [''message'' \<mapsto> JStr ''Forbidden'', ''status'' \<mapsto> JNum 403, ''response'' \<mapsto> JRef 1],
      [''status'' \<mapsto> JNum 403, ''headers'' \<mapsto> JRef 2],
      [''content-type'' \<mapsto> JStr ''application/json''] ]"

text \<open>The failure object of \<^verbatim>\<open>should handle axios error without response\<close>.\<close>

definition heap_network_error :: heap where
  "heap_network_error =
     [ [''message'' \<mapsto> JStr ''Network Error'', ''code'' \<mapsto> JStr ''NETWORK_ERROR''] ]"

text \<open>The response object of \<^verbatim>\<open>should make successful POST request\<close>.\<close>

definition heap_created :: heap where
  "heap_created =
     [ [''status'' \<mapsto> JNum 201, ''statusText'' \<mapsto> JStr ''Created'', ''data'' \<mapsto> JRef 1,
       ''headers'' \<mapsto> JRef 2],
      [''id'' \<mapsto> JNum 1, ''name'' \<mapsto> JStr ''John''],
      [''content-type'' \<mapsto> JStr ''application/json''] ]"

section \<open>Evaluating the internal request operation\<close>

lemma request_Resolved:
  assumes "axiosInstance this (axios_config config) h = (Resolved v, h1)"
  shows "request this config h = async_return (success_response \<lparr>result = Some v, error = None\<rparr> h1)"
  using assms by (simp add: request_def tryCatch_def opt_field_def)

lemma request_Rejected:
  assumes "axiosInstance this (axios_config config) h = (Rejected e, h1)"
  shows "request this config h =
           (if truthy e then async_return (failure_response \<lparr>result = None, error = Some e\<rparr> h1)
            else async_return (success_response \<lparr>result = None, error = Some e\<rparr> h1))"
  using assms by (simp add: request_def tryCatch_def opt_field_def)

lemma request_Pending:
  assumes "axiosInstance this (axios_config config) h = (Pending, h1)"
  shows "request this config h = (Pending, h1)"
  using assms by (simp add: request_def tryCatch_def)

lemma success_response_no_result:
  "async_return (success_response \<lparr>result = None, error = Some e\<rparr> h) = (Rejected TypeError, h)"
  by (simp add: success_response_def opt_field_def async_return_def)

lemma success_response_nullish:
  "nullish v \<Longrightarrow>
   async_return (success_response \<lparr>result = Some v, error = None\<rparr> h) = (Rejected TypeError, h)"
  by (cases v) (simp_all add: success_response_def opt_field_def async_return_def)

lemma get_prop_not_nullish:
  "\<not> nullish v \<Longrightarrow> \<exists>w. get_prop h v k = Inr w"
  by (cases v) simp_all

lemma opt_chain_total:
  "\<exists>w. opt_chain h v k = Inr w"
  by (cases v) (simp_all add: opt_chain_def)

lemma success_response_object:
  "async_return (success_response \<lparr>result = Some (JRef a), error = None\<rparr> h) =
     (Resolved \<lparr>res_status = obj_prop h a ''status'',
                res_headers = obj_prop h a ''headers'',
                res_data = Some (obj_prop h a ''data''),
                res_error = None\<rparr>, h)"
  by (simp add: success_response_def opt_field_def async_return_def)

lemma success_response_not_nullish:
  assumes "\<not> nullish v"
  shows "\<exists>r. async_return (success_response \<lparr>result = Some v, error = None\<rparr> h) = (Resolved r, h)"
proof -
  obtain st where st: "get_prop h v ''status'' = Inr st"
    using assms get_prop_not_nullish by blast
  obtain hs where hs: "get_prop h v ''headers'' = Inr hs"
    using assms get_prop_not_nullish by blast
  obtain d where d: "get_prop h v ''data'' = Inr d"
    using assms get_prop_not_nullish by blast
  show ?thesis
    by (simp add: success_response_def opt_field_def async_return_def st hs d)
qed

lemma or_empty_object_cases:
  "or_empty_object v h = (if truthy v then (v, h) else (JRef (length h), h @ [Map.empty]))"
  by (simp add: or_empty_object_def alloc_def)

lemma heap_obj_append:
  "heap_obj (h @ [Map.empty]) a = heap_obj h a"
  by (auto simp: heap_obj_def nth_append less_Suc_eq)

lemma failure_response_nested:
  assumes "obj_prop h a ''response'' = JRef b"
  shows "async_return (failure_response \<lparr>result = None, error = Some (JRef a)\<rparr> h) =
           (Resolved \<lparr>res_status = nullish_coalesce (obj_prop h a ''status'') (JNum 500),
                      res_headers = fst (or_empty_object (obj_prop h b ''headers'') h),
                      res_data = None,
                      res_error = Some (JRef a)\<rparr>,
            snd (or_empty_object (obj_prop h b ''headers'') h))"
  using assms
  by (simp add: failure_response_def opt_field_def opt_chain_def async_return_def
      split: prod.splits)

lemma failure_response_no_nested:
  assumes "nullish (obj_prop h a ''response'')"
  shows "async_return (failure_response \<lparr>result = None, error = Some (JRef a)\<rparr> h) =
           (Resolved \<lparr>res_status = nullish_coalesce (obj_prop h a ''status'') (JNum 500),
                      res_headers = JRef (length h),
                      res_data = None,
                      res_error = Some (JRef a)\<rparr>,
            h @ [Map.empty])"
  using assms
  by (simp add: failure_response_def opt_field_def opt_chain_def async_return_def
      or_empty_object_cases)

lemma failure_response_truthy:
  assumes "truthy e"
  shows "\<exists>st hs. async_return (failure_response \<lparr>result = None, error = Some e\<rparr> h) =
           (Resolved \<lparr>res_status = nullish_coalesce st (JNum 500),
                      res_headers = fst (or_empty_object hs h),
                      res_data = None,
                      res_error = Some e\<rparr>,
            snd (or_empty_object hs h))
          \<and> get_prop h e ''status'' = Inr st"
proof -
  have nn: "\<not> nullish e"
    using assms by (cases e) simp_all
  obtain st where st: "get_prop h e ''status'' = Inr st"
    using nn get_prop_not_nullish by blast
  obtain resp where resp: "get_prop h e ''response'' = Inr resp"
    using nn get_prop_not_nullish by blast
  obtain hs where hs: "opt_chain h resp ''headers'' = Inr hs"
    using opt_chain_total by blast
  have "async_return (failure_response \<lparr>result = None, error = Some e\<rparr> h) =
           (Resolved \<lparr>res_status = nullish_coalesce st (JNum 500),
                      res_headers = fst (or_empty_object hs h),
                      res_data = None,
                      res_error = Some e\<rparr>,
            snd (or_empty_object hs h))"
    by (simp add: failure_response_def opt_field_def async_return_def st resp hs
        split: prod.splits)
  with st show ?thesis by blast
qed

lemma or_empty_object_keeps:
  "take (length h) (snd (or_empty_object v h)) = h"
  by (simp add: or_empty_object_cases)

lemma or_empty_object_keeps_obj:
  "heap_obj (snd (or_empty_object v h)) a = heap_obj h a"
  by (simp add: or_empty_object_cases heap_obj_append)

lemma request_resolves_iff:
  "resolves (request this config h) = well_settled (axiosInstance this (axios_config config) h)"
proof (cases "axiosInstance this (axios_config config) h")
  case (Pair p h1)
  show ?thesis
  proof (cases p)
    case (Resolved v)
    with Pair have t: "axiosInstance this (axios_config config) h = (Resolved v, h1)"
      by simp
    show ?thesis
    proof (cases "nullish v")
      case True
      then show ?thesis
        using request_Resolved [OF t] success_response_nullish [of v h1]
        by (simp add: resolves_def well_settled_def t)
    next
      case False
      then obtain r where
        "async_return (success_response \<lparr>result = Some v, error = None\<rparr> h1) = (Resolved r, h1)"
        using success_response_not_nullish by blast
      with False show ?thesis
        using request_Resolved [OF t] by (simp add: resolves_def well_settled_def t)
    qed
  next
    case (Rejected e)
    with Pair have t: "axiosInstance this (axios_config config) h = (Rejected e, h1)"
      by simp
    show ?thesis
    proof (cases "truthy e")
      case True
      then obtain r h2 where
        "async_return (failure_response \<lparr>result = None, error = Some e\<rparr> h1) = (Resolved r, h2)"
        using failure_response_truthy [of e h1] by blast
      with True show ?thesis
        using request_Rejected [OF t] by (simp add: resolves_def well_settled_def t)
    next
      case False
      then show ?thesis
        using request_Rejected [OF t] success_response_no_result [of e h1]
        by (simp add: resolves_def well_settled_def t)
    qed
  next
    case Pending
    with Pair have t: "axiosInstance this (axios_config config) h = (Pending, h1)"
      by simp
    show ?thesis
      using request_Pending [OF t] by (simp add: resolves_def well_settled_def t)
  qed
qed

section \<open>The response built from a failure\<close>

text \<open>
  Claim C1, as amended. When the transport rejects with a failure object, the facade
  resolves with a response whose status is the failure's own status code if that is
  present (neither \<^verbatim>\<open>undefined\<close> nor \<^verbatim>\<open>null\<close>), and the fallback 500 otherwise. The
  status of a nested response is not consulted.
\<close>

theorem request_failure_status:
  assumes "axiosInstance this (axios_config config) h = (Rejected (JRef a), h1)"
  shows "\<exists>r h2. request this config h = (Resolved r, h2)
           \<and> res_status r = (if nullish (obj_prop h1 a ''status'') then JNum 500
                              else obj_prop h1 a ''status'')"
proof -
  obtain st hs where
    "async_return (failure_response \<lparr>result = None, error = Some (JRef a)\<rparr> h1) =
       (Resolved \<lparr>res_status = nullish_coalesce st (JNum 500),
                  res_headers = fst (or_empty_object hs h1),
                  res_data = None,
                  res_error = Some (JRef a)\<rparr>,
        snd (or_empty_object hs h1))"
    and "get_prop h1 (JRef a) ''status'' = Inr st"
    using failure_response_truthy [of "JRef a" h1] by auto
  then show ?thesis
    using request_Rejected [OF assms] by (simp add: nullish_coalesce_def)
qed

theorem request_failure_status_witness:
  "axiosInstance \<lparr>axiosInstance = mockRejectedValue (JRef 0)\<rparr>
     (axios_config \<lparr>req_method = DELETE, req_url = ''/users/1'', req_headers = Some JUndefined,
                    req_params = None, req_body = None\<rparr>) heap_forbidden
     = (Rejected (JRef 0), heap_forbidden)
   \<and> (\<exists>r h2. request \<lparr>axiosInstance = mockRejectedValue (JRef 0)\<rparr>
                 \<lparr>req_method = DELETE, req_url = ''/users/1'', req_headers = Some JUndefined,
                  req_params = None, req_body = None\<rparr> heap_forbidden = (Resolved r, h2)
              \<and> res_status r = JNum 403)"
proof -
  have t: "axiosInstance \<lparr>axiosInstance = mockRejectedValue (JRef 0)\<rparr>
     (axios_config \<lparr>req_method = DELETE, req_url = ''/users/1'', req_headers = Some JUndefined,
                    req_params = None, req_body = None\<rparr>) heap_forbidden
     = (Rejected (JRef 0), heap_forbidden)"
    by (simp add: mockRejectedValue_def)
  have s: "obj_prop heap_forbidden 0 ''status'' = JNum 403"
    by (simp add: obj_prop_def heap_obj_def heap_forbidden_def)
  show ?thesis
    using t request_failure_status [OF t] by (simp add: s)
qed

text \<open>
  Claim C1 as the specification words it fails: a failure object without a status of
  its own whose nested response reports 404 is answered with status 500, where the
  specification's rule gives 404.
\<close>

theorem nested_status_not_consulted:
  "axiosInstance \<lparr>axiosInstance = mockRejectedValue (JRef 0)\<rparr>
     (axios_config \<lparr>req_method = GET, req_url = ''/posts/-1'', req_headers = Some JUndefined,
                    req_params = Some JUndefined, req_body = None\<rparr>) heap_nested_404
     = (Rejected (JRef 0), heap_nested_404)
   \<and> request \<lparr>axiosInstance = mockRejectedValue (JRef 0)\<rparr>
       \<lparr>req_method = GET, req_url = ''/posts/-1'', req_headers = Some JUndefined,
        req_params = Some JUndefined, req_body = None\<rparr> heap_nested_404
     = (Resolved \<lparr>res_status = JNum 500, res_headers = JRef 2, res_data = None,
                  res_error = Some (JRef 0)\<rparr>, heap_nested_404)
   \<and> spec_failure_status heap_nested_404 0 = JNum 404"
  by (simp add: request_def axios_config_def mockRejectedValue_def heap_nested_404_def
      tryCatch_def opt_field_def failure_response_def obj_prop_def heap_obj_def opt_chain_def
      or_empty_object_def nullish_coalesce_def async_return_def spec_failure_status_def)

text \<open>
  Claim C2, as amended. When the failure object carries a nested response that has a
  headers object, the response of the facade has exactly that headers object, and its
  status is the failure's own status code if present, else 500.
\<close>

theorem request_failure_nested_response:
  assumes "axiosInstance this (axios_config config) h = (Rejected (JRef a), h1)"
    and "obj_prop h1 a ''response'' = JRef b"
    and "obj_prop h1 b ''headers'' = JRef c"
  shows "request this config h =
           (Resolved \<lparr>res_status = (if nullish (obj_prop h1 a ''status'') then JNum 500
                                     else obj_prop h1 a ''status''),
                      res_headers = JRef c,
                      res_data = None,
                      res_error = Some (JRef a)\<rparr>, h1)"
  using request_Rejected [OF assms(1)] failure_response_nested [OF assms(2)] assms(3)
  by (simp add: or_empty_object_cases nullish_coalesce_def)

theorem request_failure_nested_response_witness:
  "axiosInstance \<lparr>axiosInstance = mockRejectedValue (JRef 0)\<rparr>
     (axios_config \<lparr>req_method = DELETE, req_url = ''/users/1'', req_headers = Some JUndefined,
                    req_params = None, req_body = None\<rparr>) heap_forbidden
     = (Rejected (JRef 0), heap_forbidden)
   \<and> obj_prop heap_forbidden 0 ''response'' = JRef 1
   \<and> obj_prop heap_forbidden 1 ''headers'' = JRef 2
   \<and> request \<lparr>axiosInstance = mockRejectedValue (JRef 0)\<rparr>
       \<lparr>req_method = DELETE, req_url = ''/users/1'', req_headers = Some JUndefined,
        req_params = None, req_body = None\<rparr> heap_forbidden
     = (Resolved \<lparr>res_status = JNum 403, res_headers = JRef 2, res_data = None,
                  res_error = Some (JRef 0)\<rparr>, heap_forbidden)"
proof -
  have t: "axiosInstance \<lparr>axiosInstance = mockRejectedValue (JRef 0)\<rparr>
     (axios_config \<lparr>req_method = DELETE, req_url = ''/users/1'', req_headers = Some JUndefined,
                    req_params = None, req_body = None\<rparr>) heap_forbidden
     = (Rejected (JRef 0), heap_forbidden)"
    by (simp add: mockRejectedValue_def)
  have r: "obj_prop heap_forbidden 0 ''response'' = JRef 1"
    by (simp add: obj_prop_def heap_obj_def heap_forbidden_def)
  have hs: "obj_prop heap_forbidden 1 ''headers'' = JRef 2"
    by (simp add: obj_prop_def heap_obj_def heap_forbidden_def)
  have s0: "obj_prop heap_forbidden 0 ''status'' = JNum 403"
    by (simp add: obj_prop_def heap_obj_def heap_forbidden_def)
  show ?thesis
    using t r hs request_failure_nested_response [OF t r hs] by (simp add: s0)
qed

text \<open>
  Claim C2 as the specification words it fails on the input of the unit test
  \<^verbatim>\<open>should handle axios error with undefined status\<close>: the nested response has status
  0, and the response of the facade has status 500, as that test expects.
\<close>

theorem nested_response_status_differs:
  "axiosInstance \<lparr>axiosInstance = mockRejectedValue (JRef 0)\<rparr>
     (axios_config \<lparr>req_method = GET, req_url = ''/users'', req_headers = Some JUndefined,
                    req_params = Some JUndefined, req_body = None\<rparr>) heap_undefined_status
     = (Rejected (JRef 0), heap_undefined_status)
   \<and> obj_prop heap_undefined_status 0 ''response'' = JRef 1
   \<and> obj_prop heap_undefined_status 1 ''status'' = JNum 0
   \<and> get \<lparr>axiosInstance = mockRejectedValue (JRef 0)\<rparr> ''/users'' JUndefined JUndefined
       heap_undefined_status
     = (Resolved \<lparr>res_status = JNum 500, res_headers = JRef 3, res_data = None,
                  res_error = Some (JRef 0)\<rparr>, heap_undefined_status)"
  by (simp add: get_def request_def axios_config_def mockRejectedValue_def
      heap_undefined_status_def tryCatch_def opt_field_def failure_response_def obj_prop_def
      heap_obj_def opt_chain_def or_empty_object_def nullish_coalesce_def async_return_def)

text \<open>
  Claim C4. When the transport rejects with a failure object, the response of the facade
  has no \<^verbatim>\<open>data\<close> key, and its \<^verbatim>\<open>error\<close> is the reference the transport rejected
  with: the same object. The object is unmodified, as is every object the store held when
  the transport settled.
\<close>

theorem request_failure_error_identity:
  assumes "axiosInstance this (axios_config config) h = (Rejected (JRef a), h1)"
  shows "\<exists>r h2. request this config h = (Resolved r, h2)
           \<and> res_data r = None
           \<and> res_error r = Some (JRef a)
           \<and> heap_obj h2 a = heap_obj h1 a
           \<and> take (length h1) h2 = h1"
proof -
  obtain st hs where
    "async_return (failure_response \<lparr>result = None, error = Some (JRef a)\<rparr> h1) =
       (Resolved \<lparr>res_status = nullish_coalesce st (JNum 500),
                  res_headers = fst (or_empty_object hs h1),
                  res_data = None,
                  res_error = Some (JRef a)\<rparr>,
        snd (or_empty_object hs h1))"
    using failure_response_truthy [of "JRef a" h1] by auto
  then show ?thesis
    using request_Rejected [OF assms]
    by (simp add: or_empty_object_keeps or_empty_object_keeps_obj)
qed

theorem request_failure_error_identity_witness:
  "axiosInstance \<lparr>axiosInstance = mockRejectedValue (JRef 0)\<rparr>
     (axios_config \<lparr>req_method = GET, req_url = ''/users'', req_headers = Some JUndefined,
                    req_params = Some JUndefined, req_body = None\<rparr>) heap_network_error
     = (Rejected (JRef 0), heap_network_error)
   \<and> (\<exists>r h2. request \<lparr>axiosInstance = mockRejectedValue (JRef 0)\<rparr>
                 \<lparr>req_method = GET, req_url = ''/users'', req_headers = Some JUndefined,
                  req_params = Some JUndefined, req_body = None\<rparr> heap_network_error
                 = (Resolved r, h2)
              \<and> res_data r = None
              \<and> res_error r = Some (JRef 0)
              \<and> heap_obj h2 0 = heap_obj heap_network_error 0
              \<and> take (length heap_network_error) h2 = heap_network_error)"
proof -
  have t: "axiosInstance \<lparr>axiosInstance = mockRejectedValue (JRef 0)\<rparr>
     (axios_config \<lparr>req_method = GET, req_url = ''/users'', req_headers = Some JUndefined,
                    req_params = Some JUndefined, req_body = None\<rparr>) heap_network_error
     = (Rejected (JRef 0), heap_network_error)"
    by (simp add: mockRejectedValue_def)
  show ?thesis
    using t request_failure_error_identity [OF t] by simp
qed

text \<open>
  Claim C5. When the failure object carries neither a status code of its own nor a
  nested response, the response of the facade has status 500 and, as headers, a new
  object without any entry.
\<close>

theorem request_failure_fallback:
  assumes "axiosInstance this (axios_config config) h = (Rejected (JRef a), h1)"
    and "nullish (obj_prop h1 a ''status'')"
    and "nullish (obj_prop h1 a ''response'')"
  shows "request this config h =
           (Resolved \<lparr>res_status = JNum 500,
                      res_headers = JRef (length h1),
                      res_data = None,
                      res_error = Some (JRef a)\<rparr>, h1 @ [Map.empty])
         \<and> heap_obj (h1 @ [Map.empty]) (length h1) = Map.empty"
  using request_Rejected [OF assms(1)] failure_response_no_nested [OF assms(3)] assms(2)
  by (simp add: nullish_coalesce_def heap_obj_def)

theorem request_failure_fallback_witness:
  "axiosInstance \<lparr>axiosInstance = mockRejectedValue (JRef 0)\<rparr>
     (axios_config \<lparr>req_method = GET, req_url = ''/users'', req_headers = Some JUndefined,
                    req_params = Some JUndefined, req_body = None\<rparr>) heap_network_error
     = (Rejected (JRef 0), heap_network_error)
   \<and> nullish (obj_prop heap_network_error 0 ''status'')
   \<and> nullish (obj_prop heap_network_error 0 ''response'')
   \<and> request \<lparr>axiosInstance = mockRejectedValue (JRef 0)\<rparr>
       \<lparr>req_method = GET, req_url = ''/users'', req_headers = Some JUndefined,
        req_params = Some JUndefined, req_body = None\<rparr> heap_network_error
     = (Resolved \<lparr>res_status = JNum 500, res_headers = JRef 1, res_data = None,
                  res_error = Some (JRef 0)\<rparr>, heap_network_error @ [Map.empty])
   \<and> heap_obj (heap_network_error @ [Map.empty]) 1 = Map.empty"
proof -
  have t: "axiosInstance \<lparr>axiosInstance = mockRejectedValue (JRef 0)\<rparr>
     (axios_config \<lparr>req_method = GET, req_url = ''/users'', req_headers = Some JUndefined,
                    req_params = Some JUndefined, req_body = None\<rparr>) heap_network_error
     = (Rejected (JRef 0), heap_network_error)"
    by (simp add: mockRejectedValue_def)
  have s: "nullish (obj_prop heap_network_error 0 ''status'')"
    by (simp add: obj_prop_def heap_obj_def heap_network_error_def)
  have r: "nullish (obj_prop heap_network_error 0 ''response'')"
    by (simp add: obj_prop_def heap_obj_def heap_network_error_def)
  have l: "length heap_network_error = 1"
    by (simp add: heap_network_error_def)
  show ?thesis
    using t s r request_failure_fallback [OF t s r] by (simp add: l)
qed

section \<open>The response built from a success\<close>

text \<open>
  Claim C3. When the transport resolves with a response object, the facade resolves with
  a response that has no \<^verbatim>\<open>error\<close> key and whose status, headers and data are the
  status, headers and data of that object; the store is left as the transport left it.
\<close>

theorem request_success:
  assumes "axiosInstance this (axios_config config) h = (Resolved (JRef a), h1)"
  shows "request this config h =
           (Resolved \<lparr>res_status = obj_prop h1 a ''status'',
                      res_headers = obj_prop h1 a ''headers'',
                      res_data = Some (obj_prop h1 a ''data''),
                      res_error = None\<rparr>, h1)"
  using request_Resolved [OF assms] success_response_object [of a h1] by simp

theorem request_success_witness:
  "axiosInstance \<lparr>axiosInstance = mockResolvedValue (JRef 0)\<rparr>
     (axios_config \<lparr>req_method = POST, req_url = ''/users'', req_headers = Some JUndefined,
                    req_params = None, req_body = Some (JRef 3)\<rparr>) heap_created
     = (Resolved (JRef 0), heap_created)
   \<and> request \<lparr>axiosInstance = mockResolvedValue (JRef 0)\<rparr>
       \<lparr>req_method = POST, req_url = ''/users'', req_headers = Some JUndefined,
        req_params = None, req_body = Some (JRef 3)\<rparr> heap_created
     = (Resolved \<lparr>res_status = JNum 201, res_headers = JRef 2, res_data = Some (JRef 1),
                  res_error = None\<rparr>, heap_created)"
proof -
  have t: "axiosInstance \<lparr>axiosInstance = mockResolvedValue (JRef 0)\<rparr>
     (axios_config \<lparr>req_method = POST, req_url = ''/users'', req_headers = Some JUndefined,
                    req_params = None, req_body = Some (JRef 3)\<rparr>) heap_created
     = (Resolved (JRef 0), heap_created)"
    by (simp add: mockResolvedValue_def)
  have p: "obj_prop heap_created 0 ''status'' = JNum 201
           \<and> obj_prop heap_created 0 ''headers'' = JRef 2
           \<and> obj_prop heap_created 0 ''data'' = JRef 1"
    by (simp add: obj_prop_def heap_obj_def heap_created_def)
  show ?thesis
    using t request_success [OF t] by (simp add: p)
qed

section \<open>Which branch builds the response\<close>

text \<open>
  Claim C9. The internal request operation chooses the branch by the truthiness of the
  \<^verbatim>\<open>error\<close> field of the wrapped outcome. When the transport rejects with a truthy
  value, the response is the one the failure branch builds, with that value as its
  \<^verbatim>\<open>error\<close> and no \<^verbatim>\<open>data\<close>. When the transport rejects with a falsy value, among
  them \<^verbatim>\<open>undefined\<close>, \<^verbatim>\<open>null\<close>, \<^verbatim>\<open>0\<close> and the empty string, the failure branch
  is not taken: the success branch runs on a wrapped outcome without \<^verbatim>\<open>result\<close>, and
  the operation rejects with a TypeError.
\<close>

theorem request_routes_by_truthiness:
  assumes "axiosInstance this (axios_config config) h = (Rejected e, h1)"
  shows "(truthy e \<longrightarrow>
            request this config h =
              async_return (failure_response \<lparr>result = None, error = Some e\<rparr> h1)
            \<and> (\<exists>r h2. request this config h = (Resolved r, h2)
                  \<and> res_error r = Some e \<and> res_data r = None))
         \<and> (\<not> truthy e \<longrightarrow>
            request this config h =
              async_return (success_response \<lparr>result = None, error = Some e\<rparr> h1)
            \<and> request this config h = (Rejected TypeError, h1))
         \<and> (e = JUndefined \<or> e = JNull \<or> e = JNum 0 \<or> e = JStr [] \<longrightarrow>
            request this config h = (Rejected TypeError, h1))"
proof -
  have a: "truthy e \<Longrightarrow> \<exists>r h2. request this config h = (Resolved r, h2)
                  \<and> res_error r = Some e \<and> res_data r = None"
  proof -
    assume te: "truthy e"
    then obtain st hs where
      "async_return (failure_response \<lparr>result = None, error = Some e\<rparr> h1) =
         (Resolved \<lparr>res_status = nullish_coalesce st (JNum 500),
                    res_headers = fst (or_empty_object hs h1),
                    res_data = None,
                    res_error = Some e\<rparr>,
          snd (or_empty_object hs h1))"
      using failure_response_truthy [of e h1] by auto
    with te show ?thesis
      using request_Rejected [OF assms] by simp
  qed
  have b: "\<not> truthy e \<Longrightarrow> request this config h = (Rejected TypeError, h1)"
    using request_Rejected [OF assms] success_response_no_result [of e h1] by simp
  have c: "e = JUndefined \<or> e = JNull \<or> e = JNum 0 \<or> e = JStr [] \<Longrightarrow> \<not> truthy e"
    by auto
  show ?thesis
    using a b c request_Rejected [OF assms] by auto
qed

theorem request_routes_by_truthiness_witness:
  "axiosInstance \<lparr>axiosInstance = mockRejectedValue (JRef 0)\<rparr>
     (axios_config \<lparr>req_method = GET, req_url = ''/users'', req_headers = Some JUndefined,
                    req_params = Some JUndefined, req_body = None\<rparr>) heap_network_error
     = (Rejected (JRef 0), heap_network_error)
   \<and> truthy (JRef 0)
   \<and> (\<exists>r h2. request \<lparr>axiosInstance = mockRejectedValue (JRef 0)\<rparr>
                 \<lparr>req_method = GET, req_url = ''/users'', req_headers = Some JUndefined,
                  req_params = Some JUndefined, req_body = None\<rparr> heap_network_error
                 = (Resolved r, h2)
              \<and> res_error r = Some (JRef 0) \<and> res_data r = None)
   \<and> axiosInstance \<lparr>axiosInstance = mockRejectedValue JUndefined\<rparr>
     (axios_config \<lparr>req_method = GET, req_url = ''/users'', req_headers = Some JUndefined,
                    req_params = Some JUndefined, req_body = None\<rparr>) []
     = (Rejected JUndefined, [])
   \<and> \<not> truthy JUndefined
   \<and> request \<lparr>axiosInstance = mockRejectedValue JUndefined\<rparr>
       \<lparr>req_method = GET, req_url = ''/users'', req_headers = Some JUndefined,
        req_params = Some JUndefined, req_body = None\<rparr> []
     = (Rejected TypeError, [])"
proof -
  have t: "axiosInstance \<lparr>axiosInstance = mockRejectedValue (JRef 0)\<rparr>
     (axios_config \<lparr>req_method = GET, req_url = ''/users'', req_headers = Some JUndefined,
                    req_params = Some JUndefined, req_body = None\<rparr>) heap_network_error
     = (Rejected (JRef 0), heap_network_error)"
    by (simp add: mockRejectedValue_def)
  have u: "axiosInstance \<lparr>axiosInstance = mockRejectedValue JUndefined\<rparr>
     (axios_config \<lparr>req_method = GET, req_url = ''/users'', req_headers = Some JUndefined,
                    req_params = Some JUndefined, req_body = None\<rparr>) []
     = (Rejected JUndefined, [])"
    by (simp add: mockRejectedValue_def)
  have tr: "truthy (JRef 0)"
    by simp
  have fa: "\<not> truthy JUndefined"
    by simp
  have a: "\<exists>r h2. request \<lparr>axiosInstance = mockRejectedValue (JRef 0)\<rparr>
                 \<lparr>req_method = GET, req_url = ''/users'', req_headers = Some JUndefined,
                  req_params = Some JUndefined, req_body = None\<rparr> heap_network_error
                 = (Resolved r, h2)
              \<and> res_error r = Some (JRef 0) \<and> res_data r = None"
    using request_routes_by_truthiness [OF t] tr by blast
  have b: "request \<lparr>axiosInstance = mockRejectedValue JUndefined\<rparr>
       \<lparr>req_method = GET, req_url = ''/users'', req_headers = Some JUndefined,
        req_params = Some JUndefined, req_body = None\<rparr> []
     = (Rejected TypeError, [])"
    using request_routes_by_truthiness [OF u] fa by blast
  from t tr a u fa b show ?thesis
    by blast
qed

section \<open>When the verb methods resolve\<close>

text \<open>
  Claim C6, as amended. Each of the five verb methods resolves with a response exactly
  when the transport resolves with a value other than \<^verbatim>\<open>undefined\<close> and \<^verbatim>\<open>null\<close> or
  rejects with a truthy value; every response object and every error object is such a
  value. On these outcomes no method rejects.
\<close>

theorem verbs_resolve:
  "resolves (get this url params headers h) =
     well_settled (axiosInstance this
       \<lparr>cfg_method = GET, cfg_url = url, cfg_headers = headers, cfg_params = params,
        cfg_data = JUndefined\<rparr> h)
   \<and> resolves (post this url body headers h) =
     well_settled (axiosInstance this
       \<lparr>cfg_method = POST, cfg_url = url, cfg_headers = headers, cfg_params = JUndefined,
        cfg_data = body\<rparr> h)
   \<and> resolves (put this url body headers h) =
     well_settled (axiosInstance this
       \<lparr>cfg_method = PUT, cfg_url = url, cfg_headers = headers, cfg_params = JUndefined,
        cfg_data = body\<rparr> h)
   \<and> resolves (patch this url body headers h) =
     well_settled (axiosInstance this
       \<lparr>cfg_method = PATCH, cfg_url = url, cfg_headers = headers, cfg_params = JUndefined,
        cfg_data = body\<rparr> h)
   \<and> resolves (delete this url headers h) =
     well_settled (axiosInstance this
       \<lparr>cfg_method = DELETE, cfg_url = url, cfg_headers = headers, cfg_params = JUndefined,
        cfg_data = JUndefined\<rparr> h)"
  by (simp add: get_def post_def put_def patch_def delete_def request_resolves_iff
      axios_config_def opt_field_def)

text \<open>
  Claim C6 as the specification words it, for every value, fails: when the transport
  rejects with \<^verbatim>\<open>undefined\<close>, or resolves with \<^verbatim>\<open>null\<close>, the promise of \<^verbatim>\<open>get\<close>
  is rejected with a TypeError.
\<close>

theorem get_rejects_on_falsy_rejection:
  "get \<lparr>axiosInstance = mockRejectedValue JUndefined\<rparr> ''/users'' JUndefined JUndefined []
     = (Rejected TypeError, [])
   \<and> get \<lparr>axiosInstance = mockResolvedValue JNull\<rparr> ''/users'' JUndefined JUndefined []
     = (Rejected TypeError, [])"
  by (simp add: get_def request_def axios_config_def mockRejectedValue_def mockResolvedValue_def
      tryCatch_def opt_field_def success_response_def async_return_def)

section \<open>The verb methods delegate\<close>

text \<open>
  Claim C8. Each verb method is the internal request operation on a request with the
  method's name and the caller's url and headers. \<^verbatim>\<open>get\<close> carries the caller's params
  and no body, \<^verbatim>\<open>delete\<close> carries neither params nor body, and \<^verbatim>\<open>post\<close>, \<^verbatim>\<open>put\<close>
  and \<^verbatim>\<open>patch\<close> carry the caller's body and no params. The transport accordingly
  receives \<^verbatim>\<open>undefined\<close> for what the request does not carry.
\<close>

theorem verbs_delegate:
  "get this url params headers =
     request this \<lparr>req_method = GET, req_url = url, req_headers = Some headers,
                   req_params = Some params, req_body = None\<rparr>
   \<and> post this url body headers =
     request this \<lparr>req_method = POST, req_url = url, req_headers = Some headers,
                   req_params = None, req_body = Some body\<rparr>
   \<and> put this url body headers =
     request this \<lparr>req_method = PUT, req_url = url, req_headers = Some headers,
                   req_params = None, req_body = Some body\<rparr>
   \<and> patch this url body headers =
     request this \<lparr>req_method = PATCH, req_url = url, req_headers = Some headers,
                   req_params = None, req_body = Some body\<rparr>
   \<and> delete this url headers =
     request this \<lparr>req_method = DELETE, req_url = url, req_headers = Some headers,
                   req_params = None, req_body = None\<rparr>
   \<and> axios_config \<lparr>req_method = GET, req_url = url, req_headers = Some headers,
                    req_params = Some params, req_body = None\<rparr> =
     \<lparr>cfg_method = GET, cfg_url = url, cfg_headers = headers, cfg_params = params,
      cfg_data = JUndefined\<rparr>
   \<and> axios_config \<lparr>req_method = m, req_url = url, req_headers = Some headers,
                    req_params = None, req_body = Some body\<rparr> =
     \<lparr>cfg_method = m, cfg_url = url, cfg_headers = headers, cfg_params = JUndefined,
      cfg_data = body\<rparr>
   \<and> axios_config \<lparr>req_method = DELETE, req_url = url, req_headers = Some headers,
                    req_params = None, req_body = None\<rparr> =
     \<lparr>cfg_method = DELETE, cfg_url = url, cfg_headers = headers, cfg_params = JUndefined,
      cfg_data = JUndefined\<rparr>"
  by (simp add: get_def post_def put_def patch_def delete_def axios_config_def opt_field_def)

section \<open>Construction\<close>

text \<open>
  Claim C10. The constructor hands the transport's factory the configuration in which the
  options are merged after the positional base URL: every entry of the options bag is in
  the configuration, so a \<^verbatim>\<open>baseURL\<close> entry of the bag replaces the positional
  argument; without such an entry, and without an options bag, the configuration has the
  positional argument as its \<^verbatim>\<open>baseURL\<close>.
\<close>

theorem constructor_options_override:
  "axiosInstance (constructor axios_create baseURL options) =
     axios_create (create_config baseURL options)
   \<and> (opts k = Some v \<longrightarrow> create_config baseURL (Some opts) k = Some v)
   \<and> (opts ''baseURL'' = Some v \<longrightarrow> create_config baseURL (Some opts) ''baseURL'' = Some v)
   \<and> (opts ''baseURL'' = None \<longrightarrow>
        create_config baseURL (Some opts) ''baseURL'' = Some (JStr baseURL))
   \<and> create_config baseURL None = [''baseURL'' \<mapsto> JStr baseURL]"
  by (simp add: constructor_def create_config_def map_add_def)

theorem constructor_options_override_witness:
  "[''baseURL'' \<mapsto> JStr ''https://b.example.com'', ''timeout'' \<mapsto> JNum 1000] ''baseURL''
     = Some (JStr ''https://b.example.com'')
   \<and> create_config ''https://api.example.com''
       (Some [''baseURL'' \<mapsto> JStr ''https://b.example.com'', ''timeout'' \<mapsto> JNum 1000])
       ''baseURL'' = Some (JStr ''https://b.example.com'')
   \<and> [''timeout'' \<mapsto> JNum 1000] ''baseURL'' = None
   \<and> create_config ''https://api.example.com'' (Some [''timeout'' \<mapsto> JNum 1000]) ''baseURL''
     = Some (JStr ''https://api.example.com'')"
  using constructor_options_override
      [where opts = "[''baseURL'' \<mapsto> JStr ''https://b.example.com'', ''timeout'' \<mapsto> JNum 1000]"
        and k = "''baseURL''" and v = "JStr ''https://b.example.com''"
        and baseURL = "''https://api.example.com''"]
    constructor_options_override
      [where opts = "[''timeout'' \<mapsto> JNum 1000]" and k = "''timeout''" and v = "JNum 1000"
        and baseURL = "''https://api.example.com''"]
  by simp

section \<open>The result wrapper never rejects\<close>

text \<open>
  Claim C7. Whatever the awaited operation does, the promise of the result wrapper is
  never rejected. When the operation resolves with \<open>v\<close> the wrapper resolves with the object
  holding \<open>v\<close> under \<^verbatim>\<open>result\<close> and no \<^verbatim>\<open>error\<close> key; when the operation rejects with
  \<open>e\<close> the wrapper resolves with the object holding \<open>e\<close> under \<^verbatim>\<open>error\<close> and no
  \<^verbatim>\<open>result\<close> key; and every \<^verbatim>\<open>Result\<close> the wrapper returns has exactly one of the two
  keys.
\<close>

theorem tryCatch_total:
  "tryCatch p \<noteq> Rejected x
   \<and> tryCatch (Resolved v) = Resolved \<lparr>result = Some v, error = None\<rparr>
   \<and> tryCatch (Rejected e) = Resolved \<lparr>result = None, error = Some e\<rparr>
   \<and> (tryCatch p = Resolved r \<longrightarrow> (result r = None) \<noteq> (error r = None))"
  by (cases p) (auto simp: tryCatch_def)

theorem tryCatch_total_witness:
  "tryCatch (Rejected (JRef 0)) = Resolved \<lparr>result = None, error = Some (JRef 0)\<rparr>
   \<and> ((result \<lparr>result = None, error = Some (JRef 0)\<rparr> = None)
        \<noteq> (error \<lparr>result = None, error = Some (JRef 0)\<rparr> = None))"
  using tryCatch_total [where p = "Rejected (JRef 0)" and e = "JRef 0"
      and r = "\<lparr>result = None, error = Some (JRef 0)\<rparr>"]
  by simp

end
